theory Spec2Isabelle
  imports Main "HOL-Library.AList" "HOL-Library.Sublist"
begin

section \<open>Python values, dictionaries and errors\<close>

text \<open>
  The application keeps everything in \<^verbatim>\<open>st.session_state.personality_data\<close>, a Python
  dictionary from assessment names to dictionaries of scalars. A scalar is an integer, a
  string or \<^verbatim>\<open>None\<close>. A dictionary is an association list in insertion order;
  \<^verbatim>\<open>d[k] = v\<close> replaces the value of an existing key in place and appends a new key.
\<close>

datatype pyval = PNone | PInt int | PStr string

type_synonym pydict = "(string \<times> pyval) list"

datatype error = TypeError | IndexError | KeyError

definition setitem :: "('k \<times> 'v) list \<Rightarrow> 'k \<Rightarrow> 'v \<Rightarrow> ('k \<times> 'v) list" where
  "setitem d k v = AList.update k v d"

definition contains :: "('k \<times> 'v) list \<Rightarrow> 'k \<Rightarrow> bool" where
  "contains d k = (map_of d k \<noteq> None)"

definition getitem :: "('k \<times> 'v) list \<Rightarrow> 'k \<Rightarrow> error + 'v" where
  "getitem d k = (case map_of d k of None \<Rightarrow> Inl KeyError | Some v \<Rightarrow> Inr v)"

text \<open>Python's \<^verbatim>\<open>str\<close> on a scalar, as an f-string applies it.\<close>

definition digit_char :: "nat \<Rightarrow> char" where
  "digit_char d = char_of (48 + d)"

function str_nat :: "nat \<Rightarrow> string" where
  "str_nat n = (if n < 10 then [digit_char n] else str_nat (n div 10) @ [digit_char (n mod 10)])"
  by pat_completeness auto
termination
  by (relation "measure (\<lambda>n. n)") auto

definition str_int :: "int \<Rightarrow> string" where
  "str_int i = (if i < 0 then CHR ''-'' # str_nat (nat (- i)) else str_nat (nat i))"

fun py_str :: "pyval \<Rightarrow> string" where
  "py_str PNone = ''None''"
| "py_str (PInt i) = str_int i"
| "py_str (PStr s) = s"

text \<open>\<^verbatim>\<open>x[0]\<close> on the value a radio widget returned: a string or \<^verbatim>\<open>None\<close>.\<close>

fun subscript0 :: "string option \<Rightarrow> error + string" where
  "subscript0 None = Inl TypeError"
| "subscript0 (Some []) = Inl IndexError"
| "subscript0 (Some (c # cs)) = Inr [c]"

fun opt_str :: "string option \<Rightarrow> pyval" where
  "opt_str None = PNone"
| "opt_str (Some s) = PStr s"

fun opt_int :: "int option \<Rightarrow> pyval" where
  "opt_int None = PNone"
| "opt_int (Some i) = PInt i"

section \<open>Session state, widgets and rendered output\<close>

record vector_store_handle =
  collection_name :: string
  embedding_model :: string
  persist_directory :: string

record session_state =
  initialized :: bool
  personality_data :: "(string \<times> pydict) list"
  vector_store :: "vector_store_handle option"

text \<open>
  Every Streamlit call that shows something appends one element to the page. Elements placed
  inside \<^verbatim>\<open>with col:\<close> blocks are listed in program order after the \<open>Columns\<close> element.
  An uncaught exception ends the run; the run's result carries it next to what was rendered
  before it.
\<close>

datatype element =
    Title string
  | SidebarTitle string
  | Header string
  | Subheader string
  | Markdown string
  | Write string
  | Warning string
  | Success string
  | Info string
  | Spinner string
  | Radio string "string list"
  | Selectbox string "pyval list"
  | Slider string int int int
  | Button string
  | TextInput string
  | BarChart pydict
  | Progress int
  | Columns nat

type_synonym rendered = "element list \<times> error option"

definition emit :: "element list \<Rightarrow> rendered" where
  "emit es = (es, None)"

definition raise :: "error \<Rightarrow> rendered" where
  "raise e = ([], Some e)"

definition seq :: "rendered \<Rightarrow> rendered \<Rightarrow> rendered" where
  "seq a b = (case a of
      (o1, Some e) \<Rightarrow> (o1, Some e)
    | (o1, None) \<Rightarrow> (case b of (o2, r) \<Rightarrow> (o1 @ o2, r)))"

definition with_key :: "pydict \<Rightarrow> string \<Rightarrow> (pyval \<Rightarrow> rendered) \<Rightarrow> rendered" where
  "with_key d k f = (case getitem d k of Inl e \<Rightarrow> raise e | Inr v \<Rightarrow> f v)"

text \<open>
  A selection widget (\<^verbatim>\<open>st.radio\<close>, \<^verbatim>\<open>st.selectbox\<close>) returns the option at the index
  the front end reports, and the front end offers the listed options only. An index with
  no option behind it gives \<^verbatim>\<open>None\<close>, the widget's value when nothing is selected.
\<close>

definition select_option :: "'a list \<Rightarrow> nat \<Rightarrow> 'a option" where
  "select_option options i = (if i < length options then Some (options ! i) else None)"

text \<open>The widget values of one run of the script, as the front end reports them.\<close>

record inputs =
  page_choice :: nat
  assessment_choice :: nat
  openness_in :: int
  conscientiousness_in :: int
  extraversion_in :: int
  agreeableness_in :: int
  neuroticism_in :: int
  save_big_five :: bool
  ei_choice :: nat
  sn_choice :: nat
  tf_choice :: nat
  jp_choice :: nat
  save_mbti :: bool
  primary_choice :: nat
  wing_choice :: nat
  instinct_choice :: nat
  save_enneagram :: bool
  user_query_in :: string
  ask :: bool

section \<open>The Big Five form\<close>

definition big_five_intro :: string where
  "big_five_intro = ''
    The Big Five personality traits represent five broad dimensions of personality:
    - Openness to experience
    - Conscientiousness
    - Extraversion
    - Agreeableness
    - Neuroticism
    
    Rate yourself on each dimension using the sliders below.
    ''"

definition big_five_record :: "int \<Rightarrow> int \<Rightarrow> int \<Rightarrow> int \<Rightarrow> int \<Rightarrow> pydict" where
  "big_five_record openness conscientiousness extraversion agreeableness neuroticism =
     [(''openness'', PInt openness),
      (''conscientiousness'', PInt conscientiousness),
      (''extraversion'', PInt extraversion),
      (''agreeableness'', PInt agreeableness),
      (''neuroticism'', PInt neuroticism)]"

definition big_five_assessment :: "session_state \<Rightarrow> inputs \<Rightarrow> session_state \<times> rendered" where
  "big_five_assessment ss inp =
     (let openness = openness_in inp;
          conscientiousness = conscientiousness_in inp;
          extraversion = extraversion_in inp;
          agreeableness = agreeableness_in inp;
          neuroticism = neuroticism_in inp;
          form = [Subheader ''Big Five (OCEAN) Assessment'',
                  Markdown big_five_intro,
                  Slider ''Openness to Experience'' 1 100 50,
                  Slider ''Conscientiousness'' 1 100 50,
                  Slider ''Extraversion'' 1 100 50,
                  Slider ''Agreeableness'' 1 100 50,
                  Slider ''Neuroticism'' 1 100 50,
                  Button ''Save Big Five Assessment'']
      in if save_big_five inp
         then (ss\<lparr>personality_data :=
                    setitem (personality_data ss) ''big_five''
                      (big_five_record openness conscientiousness extraversion
                         agreeableness neuroticism)\<rparr>,
               emit (form @ [Success ''Big Five assessment saved successfully!'']))
         else (ss, emit form))"

section \<open>The MBTI form\<close>

definition mbti_intro :: string where
  "mbti_intro = ''
    The MBTI identifies preferences across four dichotomies:
    - Extraversion (E) vs. Introversion (I)
    - Sensing (S) vs. Intuition (N)
    - Thinking (T) vs. Feeling (F)
    - Judging (J) vs. Perceiving (P)
    
    Select your preferences below.
    ''"

definition ei_options :: "string list" where
  "ei_options = [''Extraversion (E)'', ''Introversion (I)'']"

definition sn_options :: "string list" where
  "sn_options = [''Sensing (S)'', ''Intuition (N)'']"

definition tf_options :: "string list" where
  "tf_options = [''Thinking (T)'', ''Feeling (F)'']"

definition jp_options :: "string list" where
  "jp_options = [''Judging (J)'', ''Perceiving (P)'']"

text \<open>
  The first characters \<^verbatim>\<open>ei[0]\<close>, \<^verbatim>\<open>sn[0]\<close>, \<^verbatim>\<open>tf[0]\<close>, \<^verbatim>\<open>jp[0]\<close> of the chosen
  labels, evaluated left to right as in the f-string
  \<^verbatim>\<open>f"{ei[0]}{sn[0]}{tf[0]}{jp[0]}"\<close>; the dictionary written on save evaluates the same
  four expressions again.
\<close>

definition first_chars ::
  "string option \<Rightarrow> string option \<Rightarrow> string option \<Rightarrow> string option
     \<Rightarrow> error + (string \<times> string \<times> string \<times> string)" where
  "first_chars ei sn tf jp =
     (case subscript0 ei of Inl e \<Rightarrow> Inl e | Inr ei0 \<Rightarrow>
      case subscript0 sn of Inl e \<Rightarrow> Inl e | Inr sn0 \<Rightarrow>
      case subscript0 tf of Inl e \<Rightarrow> Inl e | Inr tf0 \<Rightarrow>
      case subscript0 jp of Inl e \<Rightarrow> Inl e | Inr jp0 \<Rightarrow> Inr (ei0, sn0, tf0, jp0))"

definition mbti_type_of ::
  "string option \<Rightarrow> string option \<Rightarrow> string option \<Rightarrow> string option \<Rightarrow> error + string" where
  "mbti_type_of ei sn tf jp =
     (case first_chars ei sn tf jp of
        Inl e \<Rightarrow> Inl e
      | Inr (ei0, sn0, tf0, jp0) \<Rightarrow> Inr (ei0 @ sn0 @ tf0 @ jp0))"

definition mbti_record :: "string \<Rightarrow> string \<Rightarrow> string \<Rightarrow> string \<Rightarrow> string \<Rightarrow> pydict" where
  "mbti_record mbti_type ei0 sn0 tf0 jp0 =
     [(''type'', PStr mbti_type),
      (''ei'', PStr ei0),
      (''sn'', PStr sn0),
      (''tf'', PStr tf0),
      (''jp'', PStr jp0)]"

definition mbti_assessment :: "session_state \<Rightarrow> inputs \<Rightarrow> session_state \<times> rendered" where
  "mbti_assessment ss inp =
     (let ei = select_option ei_options (ei_choice inp);
          sn = select_option sn_options (sn_choice inp);
          tf = select_option tf_options (tf_choice inp);
          jp = select_option jp_options (jp_choice inp);
          form = [Subheader ''Myers-Briggs Type Indicator (MBTI) Assessment'',
                  Markdown mbti_intro,
                  Radio ''Energy orientation'' ei_options,
                  Radio ''Information gathering'' sn_options,
                  Radio ''Decision making'' tf_options,
                  Radio ''Lifestyle'' jp_options]
      in case mbti_type_of ei sn tf jp of
           Inl e \<Rightarrow> (ss, (form, Some e))
         | Inr mbti_type \<Rightarrow>
             (let shown = form @ [Write (''Your MBTI type: '' @ mbti_type),
                                  Button ''Save MBTI Assessment'']
              in if save_mbti inp
                 then (case first_chars ei sn tf jp of
                         Inl e \<Rightarrow> (ss, (shown, Some e))
                       | Inr (ei0, sn0, tf0, jp0) \<Rightarrow>
                           (ss\<lparr>personality_data :=
                                 setitem (personality_data ss) ''mbti''
                                   (mbti_record mbti_type ei0 sn0 tf0 jp0)\<rparr>,
                            emit (shown @ [Success ''MBTI assessment saved successfully!''])))
                 else (ss, emit shown)))"

section \<open>The Enneagram form\<close>

definition enneagram_intro :: string where
  "enneagram_intro = ''
    The Enneagram describes nine distinct personality types:
    1. The Reformer: Principled, purposeful, self-controlled
    2. The Helper: Generous, people-pleasing, possessive
    3. The Achiever: Adaptable, excelling, driven
    4. The Individualist: Expressive, dramatic, self-absorbed
    5. The Investigator: Perceptive, innovative, isolated
    6. The Loyalist: Engaging, responsible, anxious
    7. The Enthusiast: Spontaneous, versatile, scattered
    8. The Challenger: Self-confident, decisive, confrontational
    9. The Peacemaker: Receptive, reassuring, complacent
    
    Select your primary type and wing below.
    ''"

definition primary_options :: "int list" where
  "primary_options = [1..9]"

definition instinct_options :: "string list" where
  "instinct_options =
     [''Self-Preservation (sp)'', ''Social (so)'', ''One-to-One/Sexual (sx)'']"

definition wing_options :: "int \<Rightarrow> int list" where
  "wing_options primary_type =
     filter (\<lambda>w. 1 \<le> w \<and> w \<le> 9) [primary_type - 1, primary_type + 1]"

definition enneagram_record :: "int \<Rightarrow> int option \<Rightarrow> string option \<Rightarrow> pydict" where
  "enneagram_record primary_type wing instinct =
     [(''primary_type'', PInt primary_type),
      (''wing'', opt_int wing),
      (''instinct'', opt_str instinct)]"

definition enneagram_assessment :: "session_state \<Rightarrow> inputs \<Rightarrow> session_state \<times> rendered" where
  "enneagram_assessment ss inp =
     (let intro = [Subheader ''Enneagram Assessment'',
                   Markdown enneagram_intro,
                   Selectbox ''Primary Type'' (map PInt primary_options)]
      in case select_option primary_options (primary_choice inp) of
           None \<Rightarrow> (ss, (intro, Some TypeError))
         | Some primary_type \<Rightarrow>
             (let wing = select_option (wing_options primary_type) (wing_choice inp);
                  instinct = select_option instinct_options (instinct_choice inp);
                  form = intro @
                    [Selectbox ''Wing'' (map PInt (wing_options primary_type)),
                     Selectbox ''Dominant Instinct'' (map PStr instinct_options),
                     Button ''Save Enneagram Assessment'']
              in if save_enneagram inp
                 then (ss\<lparr>personality_data :=
                            setitem (personality_data ss) ''enneagram''
                              (enneagram_record primary_type wing instinct)\<rparr>,
                       emit (form @ [Success ''Enneagram assessment saved successfully!'']))
                 else (ss, emit form)))"

section \<open>The pages\<close>

definition home_intro :: string where
  "home_intro = ''
    Ego is a privacy-focused application designed to capture your personality and enable 
    meaningful conversations with your past self. All your data is stored locally on your device.
    
    ## How it works:
    1. Complete personality assessments to build your digital profile
    2. Engage in regular reflections to capture your thoughts and perspectives
    3. Chat with your past self to gain insights into your personal evolution
    4. Analyze patterns and trends in your personality over time
    
    Get started by navigating to the Personality Assessment page.
    ''"

definition home_page :: "session_state \<Rightarrow> session_state \<times> rendered" where
  "home_page ss = (ss, emit [Header ''Welcome to Ego'', Markdown home_intro])"

definition assessment_types :: "string list" where
  "assessment_types =
     [''Big Five (OCEAN)'', ''Myers-Briggs Type Indicator (MBTI)'', ''Enneagram'']"

definition assessment_page :: "session_state \<Rightarrow> inputs \<Rightarrow> session_state \<times> rendered" where
  "assessment_page ss inp =
     (let top = [Header ''Personality Assessment'',
                 Selectbox ''Select Assessment Type'' (map PStr assessment_types)];
          assessment_type = select_option assessment_types (assessment_choice inp);
          (ss', body) =
            (if assessment_type = Some ''Big Five (OCEAN)'' then big_five_assessment ss inp
             else if assessment_type = Some ''Myers-Briggs Type Indicator (MBTI)''
               then mbti_assessment ss inp
             else if assessment_type = Some ''Enneagram'' then enneagram_assessment ss inp
             else (ss, emit []))
      in (ss', seq (emit top) body))"

subsection \<open>Chat with the past self\<close>

definition chat_intro :: string where
  "chat_intro = ''
    Ask a question to your past self. The application will use your stored personality data
    to generate responses that reflect how you might have responded in the past.
    ''"

definition chat_warning :: string where
  "chat_warning = ''Please complete at least one personality assessment before chatting.''"

definition chat_response :: "string \<Rightarrow> string" where
  "chat_response user_query =
     ''Based on your personality data, your past self might say: '' @
     ''I would need to think about '' @ [CHR 0x27] @ user_query @ [CHR 0x27] @
     '' carefully before responding.''"

definition chat_page :: "session_state \<Rightarrow> inputs \<Rightarrow> session_state \<times> rendered" where
  "chat_page ss inp =
     (if personality_data ss = []
      then (ss, emit [Header ''Chat with Your Past Self'', Warning chat_warning])
      else
        (let user_query = user_query_in inp;
             top = [Header ''Chat with Your Past Self'',
                    Markdown chat_intro,
                    TextInput ''Your question:'']
         in if user_query \<noteq> []
            then (if ask inp
                  then (ss, emit (top @ [Button ''Ask'',
                                         Spinner ''Generating response...'',
                                         Write ''Your past self:'',
                                         Info (chat_response user_query)]))
                  else (ss, emit (top @ [Button ''Ask''])))
            else (ss, emit top)))"

subsection \<open>Analytics\<close>

definition analytics_intro :: string where
  "analytics_intro = ''
    This page provides insights and visualizations based on your personality data.
    As you complete more assessments over time, you'll be able to track changes in your personality.
    ''"

definition analytics_warning :: string where
  "analytics_warning =
     ''Please complete at least one personality assessment to view analytics.''"

definition big_five_section :: "(string \<times> pydict) list \<Rightarrow> rendered" where
  "big_five_section pd =
     (if contains pd ''big_five''
      then seq (emit [Subheader ''Big Five (OCEAN) Profile''])
        (case getitem pd ''big_five'' of
           Inl e \<Rightarrow> raise e
         | Inr big_five \<Rightarrow>
             with_key big_five ''openness'' (\<lambda>openness.
             with_key big_five ''conscientiousness'' (\<lambda>conscientiousness.
             with_key big_five ''extraversion'' (\<lambda>extraversion.
             with_key big_five ''agreeableness'' (\<lambda>agreeableness.
             with_key big_five ''neuroticism'' (\<lambda>neuroticism.
               emit [BarChart [(''Openness'', openness),
                               (''Conscientiousness'', conscientiousness),
                               (''Extraversion'', extraversion),
                               (''Agreeableness'', agreeableness),
                               (''Neuroticism'', neuroticism)]]))))))
      else emit [])"

text \<open>
  One dichotomy of the MBTI display: the caption, then the progress bar and the letter, both
  decided by comparing the stored character with the first pole.
\<close>

definition dichotomy ::
  "pydict \<Rightarrow> string \<Rightarrow> string \<Rightarrow> string \<Rightarrow> string \<Rightarrow> rendered" where
  "dichotomy mbti caption key first_pole second_pole =
     seq (emit [Write caption])
       (with_key mbti key (\<lambda>v.
          emit [Progress (if v = PStr first_pole then 100 else 0),
                Write (if v = PStr first_pole then first_pole else second_pole)]))"

definition mbti_section :: "(string \<times> pydict) list \<Rightarrow> rendered" where
  "mbti_section pd =
     (if contains pd ''mbti''
      then seq (emit [Subheader ''MBTI Type''])
        (case getitem pd ''mbti'' of
           Inl e \<Rightarrow> raise e
         | Inr mbti \<Rightarrow>
             seq (with_key mbti ''type'' (\<lambda>t. emit [Write (''Your type: '' @ py_str t)]))
            (seq (emit [Columns 2])
            (seq (dichotomy mbti ''Energy orientation:'' ''ei'' ''E'' ''I'')
            (seq (dichotomy mbti ''Information gathering:'' ''sn'' ''S'' ''N'')
            (seq (dichotomy mbti ''Decision making:'' ''tf'' ''T'' ''F'')
                 (dichotomy mbti ''Lifestyle:'' ''jp'' ''J'' ''P''))))))
      else emit [])"

definition enneagram_section :: "(string \<times> pydict) list \<Rightarrow> rendered" where
  "enneagram_section pd =
     (if contains pd ''enneagram''
      then seq (emit [Subheader ''Enneagram Profile''])
        (case getitem pd ''enneagram'' of
           Inl e \<Rightarrow> raise e
         | Inr enneagram \<Rightarrow>
             with_key enneagram ''primary_type'' (\<lambda>primary_type.
             with_key enneagram ''wing'' (\<lambda>wing.
             with_key enneagram ''instinct'' (\<lambda>instinct.
               emit [Write (''Type '' @ py_str primary_type @ ''w'' @ py_str wing @
                            '' ('' @ py_str instinct @ '')'')]))))
      else emit [])"

definition analytics_page :: "session_state \<Rightarrow> session_state \<times> rendered" where
  "analytics_page ss =
     (if personality_data ss = []
      then (ss, emit [Header ''Personality Analytics'', Warning analytics_warning])
      else (ss,
        seq (emit [Header ''Personality Analytics'', Markdown analytics_intro])
       (seq (big_five_section (personality_data ss))
       (seq (mbti_section (personality_data ss))
            (enneagram_section (personality_data ss))))))"

section \<open>The script\<close>

text \<open>
  Each interaction runs the script from the top on the session's state. A new session has
  no state yet; the script's first statements create it. Page configuration and the loading
  of environment variables touch neither the state nor the page and are left out.
\<close>

definition initial_state :: session_state where
  "initial_state = \<lparr>initialized = False, personality_data = [], vector_store = None\<rparr>"

definition initialize_vector_db :: vector_store_handle where
  "initialize_vector_db =
     \<lparr>collection_name = ''ego_personality'',
      embedding_model = ''all-MiniLM-L6-v2'',
      persist_directory = ''./chroma_db''\<rparr>"

definition pages :: "string list" where
  "pages = [''Home'', ''Personality Assessment'', ''Chat with Past Self'', ''Analytics'']"

definition main :: "session_state \<Rightarrow> inputs \<Rightarrow> session_state \<times> rendered" where
  "main ss inp =
     (let top = [Title ''Ego: Digital Self-Reflection'',
                 SidebarTitle ''Navigation'',
                 Radio ''Go to'' pages];
          page = select_option pages (page_choice inp);
          (ss1, init) =
            (if \<not> initialized ss
             then (ss\<lparr>vector_store := Some initialize_vector_db, initialized := True\<rparr>,
                   [Spinner ''Initializing local database...''])
             else (ss, []));
          (ss2, body) =
            (if page = Some ''Home'' then home_page ss1
             else if page = Some ''Personality Assessment'' then assessment_page ss1 inp
             else if page = Some ''Chat with Past Self'' then chat_page ss1 inp
             else if page = Some ''Analytics'' then analytics_page ss1
             else (ss1, emit []))
      in (ss2, seq (emit (top @ init)) body))"

definition script :: "session_state option \<Rightarrow> inputs \<Rightarrow> session_state \<times> rendered" where
  "script session inp =
     main (case session of None \<Rightarrow> initial_state | Some ss \<Rightarrow> ss) inp"

section \<open>Sessions\<close>

text \<open>
  The values the widgets report before the user has touched anything: the first option of
  every selection, 50 on every slider, no button pressed, no text entered.
\<close>

definition default_inputs :: inputs where
  "default_inputs =
     \<lparr>page_choice = 0, assessment_choice = 0,
      openness_in = 50, conscientiousness_in = 50, extraversion_in = 50,
      agreeableness_in = 50, neuroticism_in = 50, save_big_five = False,
      ei_choice = 0, sn_choice = 0, tf_choice = 0, jp_choice = 0, save_mbti = False,
      primary_choice = 0, wing_choice = 0, instinct_choice = 0, save_enneagram = False,
      user_query_in = [], ask = False\<rparr>"

text \<open>
  The state of a session after a sequence of interactions, each a run of the script on the
  state the previous run left.
\<close>

definition session_after :: "inputs list \<Rightarrow> session_state" where
  "session_after inps = foldl (\<lambda>ss inp. fst (main ss inp)) initial_state inps"

subsection \<open>Shape of the stored results\<close>

definition big_five_ok :: "pydict \<Rightarrow> bool" where
  "big_five_ok d = (\<exists>a b c e n. d = big_five_record a b c e n)"

definition mbti_ok :: "pydict \<Rightarrow> bool" where
  "mbti_ok d = (\<exists>a b c e. d = mbti_record (a @ b @ c @ e) a b c e
      \<and> a \<in> {''E'', ''I''} \<and> b \<in> {''S'', ''I''} \<and> c \<in> {''T'', ''F''} \<and> e \<in> {''J'', ''P''})"

definition enneagram_ok :: "pydict \<Rightarrow> bool" where
  "enneagram_ok d = (\<exists>p w i. d = enneagram_record p w i \<and> 1 \<le> p \<and> p \<le> 9
      \<and> (\<forall>x. w = Some x \<longrightarrow> x \<in> set (wing_options p))
      \<and> (\<forall>s. i = Some s \<longrightarrow> s \<in> set instinct_options))"

definition store_ok :: "(string \<times> pydict) list \<Rightarrow> bool" where
  "store_ok pd = (distinct (map fst pd)
      \<and> fst ` set pd \<subseteq> {''big_five'', ''mbti'', ''enneagram''}
      \<and> (\<forall>d. map_of pd ''big_five'' = Some d \<longrightarrow> big_five_ok d)
      \<and> (\<forall>d. map_of pd ''mbti'' = Some d \<longrightarrow> mbti_ok d)
      \<and> (\<forall>d. map_of pd ''enneagram'' = Some d \<longrightarrow> enneagram_ok d))"

text \<open>
  The wing of a stored Enneagram result against the candidates of its primary type: an
  integer wing has to be one of them; \<^verbatim>\<open>None\<close> is no wing.
\<close>

definition wing_valid :: "pydict \<Rightarrow> bool" where
  "wing_valid d =
     (case map_of d ''primary_type'' of
        Some (PInt p) \<Rightarrow>
          (case map_of d ''wing'' of
             Some (PInt w) \<Rightarrow> w \<in> set (wing_options p)
           | Some PNone \<Rightarrow> True
           | _ \<Rightarrow> False)
      | _ \<Rightarrow> False)"

subsection \<open>What a page shows\<close>

fun bar_charts :: "element list \<Rightarrow> pydict list" where
  "bar_charts [] = []"
| "bar_charts (BarChart series # es) = series # bar_charts es"
| "bar_charts (e # es) = bar_charts es"

fun progress_values :: "element list \<Rightarrow> int list" where
  "progress_values [] = []"
| "progress_values (Progress v # es) = v # progress_values es"
| "progress_values (e # es) = progress_values es"

fun written :: "element list \<Rightarrow> string list" where
  "written [] = []"
| "written (Write s # es) = s # written es"
| "written (e # es) = written es"

fun infos :: "element list \<Rightarrow> string list" where
  "infos [] = []"
| "infos (Info s # es) = s # infos es"
| "infos (e # es) = infos es"

subsection \<open>The projections as the specification words them\<close>

text \<open>
  The stored result of a kind, as a list of zero or one results, and a field of a stored
  result.
\<close>

definition present :: "(string \<times> pydict) list \<Rightarrow> string \<Rightarrow> pydict list" where
  "present pd kind = (case map_of pd kind of None \<Rightarrow> [] | Some r \<Rightarrow> [r])"

definition field :: "pydict \<Rightarrow> string \<Rightarrow> pyval" where
  "field r k = (case map_of r k of None \<Rightarrow> PNone | Some v \<Rightarrow> v)"

text \<open>
  Big Five: a five-value categorical bar series (Openness, Conscientiousness, Extraversion,
  Agreeableness, Neuroticism) with the stored values, in that order.
\<close>

definition spec_big_five_series :: "pydict \<Rightarrow> pydict" where
  "spec_big_five_series r =
     [(''Openness'', field r ''openness''),
      (''Conscientiousness'', field r ''conscientiousness''),
      (''Extraversion'', field r ''extraversion''),
      (''Agreeableness'', field r ''agreeableness''),
      (''Neuroticism'', field r ''neuroticism'')]"

text \<open>
  MBTI: the type string, and four binary indicators, 100 if the stored character is the
  first-listed pole of its axis and 0 otherwise, in the order ei, sn, tf, jp.
\<close>

definition spec_indicator :: "pyval \<Rightarrow> string \<Rightarrow> int" where
  "spec_indicator v first_pole = (if v = PStr first_pole then 100 else 0)"

definition spec_mbti_indicators :: "pydict \<Rightarrow> int list" where
  "spec_mbti_indicators r =
     [spec_indicator (field r ''ei'') ''E'',
      spec_indicator (field r ''sn'') ''S'',
      spec_indicator (field r ''tf'') ''T'',
      spec_indicator (field r ''jp'') ''J'']"

definition spec_mbti_type :: "pydict \<Rightarrow> string" where
  "spec_mbti_type r = py_str (field r ''type'')"

text \<open>Enneagram: the string \<^verbatim>\<open>Type {primaryType}w{wing} ({instinct label})\<close>.\<close>

definition spec_enneagram_text :: "pydict \<Rightarrow> string" where
  "spec_enneagram_text r =
     ''Type '' @ py_str (field r ''primary_type'') @ ''w'' @ py_str (field r ''wing'') @
     '' ('' @ py_str (field r ''instinct'') @ '')''"

subsection \<open>Sample interactions\<close>

text \<open>
  A Big Five submission with the scores 80, 40, 60, 70, 30, an Enneagram submission of
  primary type 9 and a question asked on the chat page.
\<close>

definition big_five_submission :: inputs where
  "big_five_submission =
     default_inputs\<lparr>page_choice := 1, assessment_choice := 0,
       openness_in := 80, conscientiousness_in := 40, extraversion_in := 60,
       agreeableness_in := 70, neuroticism_in := 30, save_big_five := True\<rparr>"

definition enneagram_submission :: inputs where
  "enneagram_submission =
     default_inputs\<lparr>page_choice := 1, assessment_choice := 2,
       primary_choice := 8, save_enneagram := True\<rparr>"

definition question :: inputs where
  "question = default_inputs\<lparr>page_choice := 2, user_query_in := ''What should I do?'', ask := True\<rparr>"

section \<open>Dictionaries and widgets\<close>

lemma select_option_simps:
  "i < length xs \<Longrightarrow> select_option xs i = Some (xs ! i)"
  "\<not> i < length xs \<Longrightarrow> select_option xs i = None"
  by (simp_all add: select_option_def)

lemma select_option_SomeD:
  "select_option xs i = Some x \<Longrightarrow> x \<in> set xs"
  by (auto simp: select_option_def split: if_splits)

lemma map_of_setitem: "map_of (setitem d k v) = (map_of d)(k \<mapsto> v)"
  by (simp add: setitem_def update_conv')

lemma getitem_setitem_same: "getitem (setitem d k v) k = Inr v"
  by (simp add: getitem_def map_of_setitem)

lemma wing_options_1: "wing_options 1 = [2]" by (simp add: wing_options_def)
lemma wing_options_9: "wing_options 9 = [8]" by (simp add: wing_options_def)
lemma wing_options_5: "wing_options 5 = [4, 6]" by (simp add: wing_options_def)

lemma mbti_type_of_labels:
  "mbti_type_of (Some (a # as)) (Some (b # bs)) (Some (c # cs)) (Some (d # ds)) = Inr [a, b, c, d]"
  by (simp add: mbti_type_of_def first_chars_def)


section \<open>The store keeps its shape\<close>

lemma store_ok_empty: "store_ok []"
  by (simp add: store_ok_def)

lemma keys_setitem: "fst ` set (setitem d k v) = insert k (fst ` set d)"
  by (simp add: setitem_def dom_update)

lemma distinct_setitem: "distinct (map fst d) \<Longrightarrow> distinct (map fst (setitem d k v))"
  by (simp add: setitem_def distinct_update)

lemma store_ok_set_big_five:
  "store_ok pd \<Longrightarrow> big_five_ok d \<Longrightarrow> store_ok (setitem pd ''big_five'' d)"
  by (simp add: store_ok_def keys_setitem distinct_setitem map_of_setitem)

lemma store_ok_set_mbti:
  "store_ok pd \<Longrightarrow> mbti_ok d \<Longrightarrow> store_ok (setitem pd ''mbti'' d)"
  by (simp add: store_ok_def keys_setitem distinct_setitem map_of_setitem)

lemma store_ok_set_enneagram:
  "store_ok pd \<Longrightarrow> enneagram_ok d \<Longrightarrow> store_ok (setitem pd ''enneagram'' d)"
  by (simp add: store_ok_def keys_setitem distinct_setitem map_of_setitem)

lemma subscript0_ei:
  "subscript0 (select_option ei_options i) = Inr a \<Longrightarrow> a \<in> {''E'', ''I''}"
  by (auto simp: select_option_def ei_options_def less_Suc_eq numeral_2_eq_2 split: if_splits)

lemma subscript0_sn:
  "subscript0 (select_option sn_options i) = Inr a \<Longrightarrow> a \<in> {''S'', ''I''}"
  by (auto simp: select_option_def sn_options_def less_Suc_eq numeral_2_eq_2 split: if_splits)

lemma subscript0_tf:
  "subscript0 (select_option tf_options i) = Inr a \<Longrightarrow> a \<in> {''T'', ''F''}"
  by (auto simp: select_option_def tf_options_def less_Suc_eq numeral_2_eq_2 split: if_splits)

lemma subscript0_jp:
  "subscript0 (select_option jp_options i) = Inr a \<Longrightarrow> a \<in> {''J'', ''P''}"
  by (auto simp: select_option_def jp_options_def less_Suc_eq numeral_2_eq_2 split: if_splits)

lemma first_chars_InrD:
  "first_chars ei sn tf jp = Inr (a, b, c, d) \<Longrightarrow>
     subscript0 ei = Inr a \<and> subscript0 sn = Inr b \<and> subscript0 tf = Inr c \<and> subscript0 jp = Inr d"
  by (auto simp: first_chars_def split: sum.splits)

lemma mbti_type_of_InrD:
  "mbti_type_of ei sn tf jp = Inr t \<Longrightarrow>
     \<exists>a b c d. first_chars ei sn tf jp = Inr (a, b, c, d) \<and> t = a @ b @ c @ d"
  by (auto simp: mbti_type_of_def split: sum.splits)

lemma mbti_assessment_cases:
  "fst (mbti_assessment ss inp) = ss \<or>
   (\<exists>a b c d. first_chars (select_option ei_options (ei_choice inp))
        (select_option sn_options (sn_choice inp))
        (select_option tf_options (tf_choice inp))
        (select_option jp_options (jp_choice inp)) = Inr (a, b, c, d)
     \<and> fst (mbti_assessment ss inp) =
         ss\<lparr>personality_data := setitem (personality_data ss) ''mbti''
               (mbti_record (a @ b @ c @ d) a b c d)\<rparr>)"
  by (auto simp: mbti_assessment_def Let_def mbti_type_of_def split: sum.splits)

lemma mbti_assessment_store_ok:
  assumes "store_ok (personality_data ss)"
  shows "store_ok (personality_data (fst (mbti_assessment ss inp)))"
proof -
  from mbti_assessment_cases [of ss inp] show ?thesis
  proof
    assume "fst (mbti_assessment ss inp) = ss"
    with assms show ?thesis by simp
  next
    assume "\<exists>a b c d. first_chars (select_option ei_options (ei_choice inp))
        (select_option sn_options (sn_choice inp))
        (select_option tf_options (tf_choice inp))
        (select_option jp_options (jp_choice inp)) = Inr (a, b, c, d)
     \<and> fst (mbti_assessment ss inp) =
         ss\<lparr>personality_data := setitem (personality_data ss) ''mbti''
               (mbti_record (a @ b @ c @ d) a b c d)\<rparr>"
    then obtain a b c d where
      fc: "first_chars (select_option ei_options (ei_choice inp))
        (select_option sn_options (sn_choice inp))
        (select_option tf_options (tf_choice inp))
        (select_option jp_options (jp_choice inp)) = Inr (a, b, c, d)"
      and st: "fst (mbti_assessment ss inp) =
         ss\<lparr>personality_data := setitem (personality_data ss) ''mbti''
               (mbti_record (a @ b @ c @ d) a b c d)\<rparr>"
      by blast
    from first_chars_InrD [OF fc]
    have "a \<in> {''E'', ''I''}" "b \<in> {''S'', ''I''}" "c \<in> {''T'', ''F''}" "d \<in> {''J'', ''P''}"
      using subscript0_ei subscript0_sn subscript0_tf subscript0_jp by blast+
    then have "mbti_ok (mbti_record (a @ b @ c @ d) a b c d)"
      unfolding mbti_ok_def by blast
    with assms st show ?thesis
      by (simp add: store_ok_set_mbti)
  qed
qed

lemma big_five_okI: "big_five_ok (big_five_record a b c e n)"
  unfolding big_five_ok_def by blast

lemma enneagram_okI:
  "1 \<le> p \<Longrightarrow> p \<le> 9 \<Longrightarrow> (\<And>x. w = Some x \<Longrightarrow> x \<in> set (wing_options p))
   \<Longrightarrow> (\<And>s. i = Some s \<Longrightarrow> s \<in> set instinct_options)
   \<Longrightarrow> enneagram_ok (enneagram_record p w i)"
  unfolding enneagram_ok_def by blast

lemma big_five_assessment_store_ok:
  "store_ok (personality_data ss) \<Longrightarrow> store_ok (personality_data (fst (big_five_assessment ss inp)))"
  by (simp add: big_five_assessment_def Let_def big_five_okI store_ok_set_big_five)

lemma primary_options_SomeD:
  "select_option primary_options i = Some p \<Longrightarrow> 1 \<le> p \<and> p \<le> 9"
  by (drule select_option_SomeD) (simp add: primary_options_def)

lemma enneagram_assessment_store_ok:
  assumes "store_ok (personality_data ss)"
  shows "store_ok (personality_data (fst (enneagram_assessment ss inp)))"
proof (cases "select_option primary_options (primary_choice inp)")
  case None
  with assms show ?thesis by (simp add: enneagram_assessment_def)
next
  case (Some p)
  have "enneagram_ok (enneagram_record p (select_option (wing_options p) (wing_choice inp))
          (select_option instinct_options (instinct_choice inp)))"
    using primary_options_SomeD [OF Some]
    by (intro enneagram_okI) (auto dest: select_option_SomeD)
  with assms Some show ?thesis
    by (simp add: enneagram_assessment_def Let_def store_ok_set_enneagram)
qed

lemma fst_home_page: "fst (home_page ss) = ss" by (simp add: home_page_def)
lemma fst_chat_page: "fst (chat_page ss inp) = ss" by (simp add: chat_page_def Let_def)
lemma fst_analytics_page: "fst (analytics_page ss) = ss" by (simp add: analytics_page_def)

lemma assessment_page_store_ok:
  "store_ok (personality_data ss) \<Longrightarrow> store_ok (personality_data (fst (assessment_page ss inp)))"
  by (simp add: assessment_page_def Let_def split_def big_five_assessment_store_ok
      mbti_assessment_store_ok enneagram_assessment_store_ok)

lemma main_store_ok:
  assumes "store_ok (personality_data ss)"
  shows "store_ok (personality_data (fst (main ss inp)))"
proof -
  define ss1 where "ss1 = (if \<not> initialized ss
      then ss\<lparr>vector_store := Some initialize_vector_db, initialized := True\<rparr> else ss)"
  have ok1: "store_ok (personality_data ss1)"
    using assms by (simp add: ss1_def)
  have "fst (main ss inp) = ss1 \<or> fst (main ss inp) = fst (assessment_page ss1 inp)"
    by (simp add: main_def Let_def split_def ss1_def fst_home_page fst_chat_page fst_analytics_page)
  with ok1 show ?thesis
    by (auto simp: assessment_page_store_ok)
qed

lemma session_after_snoc:
  "session_after (inps @ [inp]) = fst (main (session_after inps) inp)"
  by (simp add: session_after_def)

lemma session_after_store_ok: "store_ok (personality_data (session_after inps))"
proof (induction inps rule: rev_induct)
  case Nil
  show ?case by (simp add: session_after_def initial_state_def store_ok_empty)
next
  case (snoc inp inps)
  then show ?case by (simp add: session_after_snoc main_store_ok)
qed

section \<open>What the analytics page shows for a well-shaped store\<close>

lemma seq_emit: "seq (emit a) (emit b) = emit (a @ b)"
  by (simp add: seq_def emit_def)

lemma emit_eq: "emit a = emit b \<longleftrightarrow> a = b"
  by (simp add: emit_def)

lemma bar_charts_append: "bar_charts (xs @ ys) = bar_charts xs @ bar_charts ys"
  by (induction xs rule: bar_charts.induct) simp_all

lemma progress_values_append: "progress_values (xs @ ys) = progress_values xs @ progress_values ys"
  by (induction xs rule: progress_values.induct) simp_all

lemma written_append: "written (xs @ ys) = written xs @ written ys"
  by (induction xs rule: written.induct) simp_all

lemma infos_append: "infos (xs @ ys) = infos xs @ infos ys"
  by (induction xs rule: infos.induct) simp_all

lemma big_five_section_absent:
  "map_of pd ''big_five'' = None \<Longrightarrow> big_five_section pd = emit []"
  by (simp add: big_five_section_def contains_def)

lemma big_five_section_present:
  "map_of pd ''big_five'' = Some (big_five_record a b c e n) \<Longrightarrow>
   big_five_section pd =
     emit [Subheader ''Big Five (OCEAN) Profile'',
           BarChart (spec_big_five_series (big_five_record a b c e n))]"
  by (simp add: big_five_section_def contains_def getitem_def with_key_def big_five_record_def
      seq_def emit_def spec_big_five_series_def field_def)

lemma mbti_section_absent:
  "map_of pd ''mbti'' = None \<Longrightarrow> mbti_section pd = emit []"
  by (simp add: mbti_section_def contains_def)

lemma dichotomy_present:
  "map_of mbti key = Some v \<Longrightarrow>
   dichotomy mbti caption key p1 p2 =
     emit [Write caption, Progress (spec_indicator v p1),
           Write (if v = PStr p1 then p1 else p2)]"
  by (simp add: dichotomy_def with_key_def getitem_def seq_def emit_def spec_indicator_def)

lemma mbti_record_fields:
  "map_of (mbti_record t a b c d) ''type'' = Some (PStr t)"
  "map_of (mbti_record t a b c d) ''ei'' = Some (PStr a)"
  "map_of (mbti_record t a b c d) ''sn'' = Some (PStr b)"
  "map_of (mbti_record t a b c d) ''tf'' = Some (PStr c)"
  "map_of (mbti_record t a b c d) ''jp'' = Some (PStr d)"
  by (simp_all add: mbti_record_def)

lemma mbti_section_present:
  assumes "map_of pd ''mbti'' = Some r" and r: "r = mbti_record t a b c d"
  shows "mbti_section pd =
     emit [Subheader ''MBTI Type'',
           Write (''Your type: '' @ spec_mbti_type r),
           Columns 2,
           Write ''Energy orientation:'', Progress (spec_indicator (field r ''ei'') ''E''),
           Write (if a = ''E'' then ''E'' else ''I''),
           Write ''Information gathering:'', Progress (spec_indicator (field r ''sn'') ''S''),
           Write (if b = ''S'' then ''S'' else ''N''),
           Write ''Decision making:'', Progress (spec_indicator (field r ''tf'') ''T''),
           Write (if c = ''T'' then ''T'' else ''F''),
           Write ''Lifestyle:'', Progress (spec_indicator (field r ''jp'') ''J''),
           Write (if d = ''J'' then ''J'' else ''P'')]"
  using assms(1) unfolding r
  by (simp add: mbti_section_def contains_def getitem_def with_key_def mbti_record_fields
      dichotomy_present seq_emit spec_mbti_type_def field_def)

lemma enneagram_section_absent:
  "map_of pd ''enneagram'' = None \<Longrightarrow> enneagram_section pd = emit []"
  by (simp add: enneagram_section_def contains_def)

lemma enneagram_section_present:
  "map_of pd ''enneagram'' = Some (enneagram_record p w i) \<Longrightarrow>
   enneagram_section pd =
     emit [Subheader ''Enneagram Profile'',
           Write (spec_enneagram_text (enneagram_record p w i))]"
  by (simp add: enneagram_section_def contains_def getitem_def with_key_def enneagram_record_def
      seq_def emit_def spec_enneagram_text_def field_def)


lemma store_ok_big_five:
  "store_ok pd \<Longrightarrow> map_of pd ''big_five'' = Some r \<Longrightarrow> \<exists>a b c e n. r = big_five_record a b c e n"
  unfolding store_ok_def big_five_ok_def by blast

lemma store_ok_mbti:
  "store_ok pd \<Longrightarrow> map_of pd ''mbti'' = Some r \<Longrightarrow> \<exists>t a b c d. r = mbti_record t a b c d"
  unfolding store_ok_def mbti_ok_def by blast

lemma store_ok_enneagram:
  "store_ok pd \<Longrightarrow> map_of pd ''enneagram'' = Some r \<Longrightarrow> enneagram_ok r"
  unfolding store_ok_def by blast

lemma big_five_section_ok:
  assumes "store_ok pd"
  shows "\<exists>es. big_five_section pd = emit es
     \<and> bar_charts es = map spec_big_five_series (present pd ''big_five'')
     \<and> progress_values es = [] \<and> written es = []"
proof (cases "map_of pd ''big_five''")
  case None
  then show ?thesis
    by (simp add: big_five_section_absent present_def emit_eq)
next
  case (Some r)
  with store_ok_big_five [OF assms] obtain a b c e n where "r = big_five_record a b c e n"
    by blast
  with Some show ?thesis by (simp add: big_five_section_present present_def emit_eq)
qed

lemma mbti_section_ok:
  assumes "store_ok pd"
  shows "\<exists>es. mbti_section pd = emit es
     \<and> bar_charts es = []
     \<and> progress_values es = concat (map spec_mbti_indicators (present pd ''mbti''))
     \<and> set (map (\<lambda>r. ''Your type: '' @ spec_mbti_type r) (present pd ''mbti'')) \<subseteq> set (written es)"
proof (cases "map_of pd ''mbti''")
  case None
  then show ?thesis
    by (simp add: mbti_section_absent present_def emit_eq)
next
  case (Some r)
  with store_ok_mbti [OF assms] obtain t a b c d where r: "r = mbti_record t a b c d"
    by blast
  show ?thesis
    by (simp add: mbti_section_present [OF Some r] present_def Some spec_mbti_indicators_def
        emit_eq)
qed

lemma enneagram_section_ok:
  assumes "store_ok pd"
  shows "\<exists>es. enneagram_section pd = emit es
     \<and> bar_charts es = [] \<and> progress_values es = []
     \<and> written es = map spec_enneagram_text (present pd ''enneagram'')"
proof (cases "map_of pd ''enneagram''")
  case None
  then show ?thesis
    by (simp add: enneagram_section_absent present_def emit_eq)
next
  case (Some r)
  with store_ok_enneagram [OF assms] obtain p w i where "r = enneagram_record p w i"
    by (auto simp: enneagram_ok_def)
  with Some show ?thesis by (simp add: enneagram_section_present present_def emit_eq)
qed

lemma analytics_page_ok:
  assumes ok: "store_ok (personality_data ss)" and ne: "personality_data ss \<noteq> []"
  shows "fst (analytics_page ss) = ss
     \<and> snd (snd (analytics_page ss)) = None
     \<and> bar_charts (fst (snd (analytics_page ss))) =
         map spec_big_five_series (present (personality_data ss) ''big_five'')
     \<and> progress_values (fst (snd (analytics_page ss))) =
         concat (map spec_mbti_indicators (present (personality_data ss) ''mbti''))
     \<and> set (map (\<lambda>r. ''Your type: '' @ spec_mbti_type r) (present (personality_data ss) ''mbti''))
         \<subseteq> set (written (fst (snd (analytics_page ss))))
     \<and> set (map spec_enneagram_text (present (personality_data ss) ''enneagram''))
         \<subseteq> set (written (fst (snd (analytics_page ss))))"
proof -
  from big_five_section_ok [OF ok] obtain e1 where
    e1: "big_five_section (personality_data ss) = emit e1"
      "bar_charts e1 = map spec_big_five_series (present (personality_data ss) ''big_five'')"
      "progress_values e1 = []" "written e1 = []"
    by blast
  from mbti_section_ok [OF ok] obtain e2 where
    e2: "mbti_section (personality_data ss) = emit e2"
      "bar_charts e2 = []"
      "progress_values e2 = concat (map spec_mbti_indicators (present (personality_data ss) ''mbti''))"
      "set (map (\<lambda>r. ''Your type: '' @ spec_mbti_type r) (present (personality_data ss) ''mbti''))
         \<subseteq> set (written e2)"
    by blast
  from enneagram_section_ok [OF ok] obtain e3 where
    e3: "enneagram_section (personality_data ss) = emit e3"
      "bar_charts e3 = []" "progress_values e3 = []"
      "written e3 = map spec_enneagram_text (present (personality_data ss) ''enneagram'')"
    by blast
  have page: "analytics_page ss =
      (ss, emit ([Header ''Personality Analytics'', Markdown analytics_intro] @ e1 @ e2 @ e3))"
    using ne by (simp add: analytics_page_def e1(1) e2(1) e3(1) seq_emit)
  show ?thesis
    unfolding page using e1(2-) e2(2-) e3(2-)
    by (auto simp: emit_def bar_charts_append progress_values_append written_append)
qed

lemma enneagram_record_wing_valid:
  "(\<And>x. w = Some x \<Longrightarrow> x \<in> set (wing_options p)) \<Longrightarrow> wing_valid (enneagram_record p w i)"
  by (cases w) (simp_all add: wing_valid_def enneagram_record_def)

lemma enneagram_ok_wing_valid: "enneagram_ok d \<Longrightarrow> wing_valid d"
  unfolding enneagram_ok_def using enneagram_record_wing_valid by blast

lemma session_wing_valid:
  "list_all wing_valid (present (personality_data (session_after inps)) ''enneagram'')"
  using session_after_store_ok [of inps]
  by (auto simp: present_def store_ok_def enneagram_ok_wing_valid split: option.splits)

lemma filter_key_le_1:
  "distinct (map fst xs) \<Longrightarrow> length (filter (\<lambda>e. fst e = k) xs) \<le> 1"
proof (induction xs)
  case Nil
  show ?case by simp
next
  case (Cons x xs)
  show ?case
  proof (cases "fst x = k")
    case True
    from Cons.prems have "fst x \<notin> fst ` set xs" by simp
    with True have "\<forall>e\<in>set xs. fst e \<noteq> k" by blast
    then have "filter (\<lambda>e. fst e = k) xs = []"
      by (simp add: filter_empty_conv)
    with True show ?thesis by simp
  next
    case False
    with Cons show ?thesis by simp
  qed
qed

lemma setitem_twice: "setitem (setitem d k a) k b = setitem d k b"
  by (simp add: setitem_def)

section \<open>Sample sessions and the chat page\<close>

lemma session_empty: "session_after [] = initial_state"
  by (simp add: session_after_def)

lemma session_big_five:
  "session_after [big_five_submission] =
     \<lparr>initialized = True,
      personality_data = [(''big_five'', big_five_record 80 40 60 70 30)],
      vector_store = Some initialize_vector_db\<rparr>"
  by (simp add: session_after_def main_def initial_state_def big_five_submission_def
      default_inputs_def select_option_def pages_def assessment_page_def assessment_types_def
      big_five_assessment_def setitem_def seq_def emit_def)

lemma session_enneagram:
  "session_after [enneagram_submission] =
     \<lparr>initialized = True,
      personality_data = [(''enneagram'', enneagram_record 9 (Some 8) (Some ''Self-Preservation (sp)''))],
      vector_store = Some initialize_vector_db\<rparr>"
  by (simp add: session_after_def main_def initial_state_def enneagram_submission_def
      default_inputs_def select_option_def pages_def assessment_page_def assessment_types_def
      enneagram_assessment_def primary_options_def wing_options_def instinct_options_def
      setitem_def seq_def emit_def upto.simps)

lemma sublist_chat_response: "sublist q (chat_response q)"
  unfolding chat_response_def sublist_def
  by (metis append.assoc)

lemma chat_page_empty:
  "personality_data ss = [] \<Longrightarrow>
   chat_page ss inp = (ss, [Header ''Chat with Your Past Self'', Warning chat_warning], None)"
  by (simp add: chat_page_def emit_def)

lemma analytics_page_empty:
  "personality_data ss = [] \<Longrightarrow>
   analytics_page ss = (ss, [Header ''Personality Analytics'', Warning analytics_warning], None)"
  by (simp add: analytics_page_def emit_def)

lemma chat_page_nonempty:
  "personality_data ss \<noteq> [] \<Longrightarrow>
   chat_page ss inp =
     (ss, emit ([Header ''Chat with Your Past Self'', Markdown chat_intro, TextInput ''Your question:'']
        @ (if user_query_in inp \<noteq> []
           then Button ''Ask'' #
             (if ask inp
              then [Spinner ''Generating response...'', Write ''Your past self:'',
                    Info (chat_response (user_query_in inp))]
              else [])
           else [])))"
  by (simp add: chat_page_def Let_def)

lemma chat_infos:
  "personality_data ss \<noteq> [] \<Longrightarrow>
   infos (fst (snd (chat_page ss inp))) =
     (if user_query_in inp \<noteq> [] \<and> ask inp then [chat_response (user_query_in inp)] else [])"
  by (simp add: chat_page_nonempty emit_def)

section \<open>The MBTI form on every submission\<close>

text \<open>
  The derived type is the first characters of the four chosen labels, and every MBTI result
  a session can hold has a type of four characters, one from each of the pairs E I, S I,
  T F and J P.
\<close>

lemma mbti_type_of_choices:
  assumes "i < 2" and "j < 2" and "k < 2" and "l < 2"
  shows "mbti_type_of (select_option ei_options i) (select_option sn_options j)
           (select_option tf_options k) (select_option jp_options l)
         = Inr [hd (ei_options ! i), hd (sn_options ! j), hd (tf_options ! k), hd (jp_options ! l)]"
proof -
  from assms have "i = 0 \<or> i = 1" "j = 0 \<or> j = 1" "k = 0 \<or> k = 1" "l = 0 \<or> l = 1"
    by auto
  then show ?thesis
    by (auto simp: select_option_def ei_options_def sn_options_def tf_options_def jp_options_def
        mbti_type_of_def first_chars_def)
qed

lemma session_mbti_ok:
  "map_of (personality_data (session_after inps)) ''mbti'' = Some r \<Longrightarrow> mbti_ok r"
  using session_after_store_ok [of inps] unfolding store_ok_def by blast

lemma mbti_ok_type_length:
  "mbti_ok r \<Longrightarrow> \<exists>t. map_of r ''type'' = Some (PStr t) \<and> length t = 4"
  by (auto simp: mbti_ok_def mbti_record_def)

section \<open>The claims\<close>

text \<open>
  C1, at the choices Introversion (I), Intuition (N), Feeling (F), Judging (J): the type
  string the form derives is the first characters of the four labels, which is IIFJ, since
  the label of Intuition starts with I; it is not INFJ.
\<close>

theorem mbti_infj_labels_give_iifj:
  "select_option ei_options 1 = Some ''Introversion (I)''
   \<and> select_option sn_options 1 = Some ''Intuition (N)''
   \<and> select_option tf_options 1 = Some ''Feeling (F)''
   \<and> select_option jp_options 0 = Some ''Judging (J)''
   \<and> mbti_type_of (Some ''Introversion (I)'') (Some ''Intuition (N)'')
        (Some ''Feeling (F)'') (Some ''Judging (J)'') = Inr ''IIFJ''"
  by (simp add: select_option_def ei_options_def sn_options_def tf_options_def jp_options_def
      mbti_type_of_def first_chars_def)

text \<open>
  C2, at a submission that chooses Intuition: the result stored under \<^verbatim>\<open>mbti\<close> has the
  \<^verbatim>\<open>sn\<close> field I, which is outside the pair S, N, and the second character of the stored
  type is that I.
\<close>

theorem mbti_intuition_stored_as_I:
  "map_of (personality_data (fst (mbti_assessment ss
      (inp\<lparr>ei_choice := 1, sn_choice := 1, tf_choice := 1, jp_choice := 0, save_mbti := True\<rparr>))))
     ''mbti''
   = Some [(''type'', PStr ''IIFJ''), (''ei'', PStr ''I''), (''sn'', PStr ''I''),
           (''tf'', PStr ''F''), (''jp'', PStr ''J'')]"
  by (simp add: mbti_assessment_def select_option_def ei_options_def sn_options_def
      tf_options_def jp_options_def mbti_type_of_def first_chars_def map_of_setitem
      mbti_record_def emit_def)

text \<open>
  C3 as stated fails: the wing options of primary type 1 are not 9 and 2, and those of
  primary type 9 are not 8 and 1.
\<close>

theorem wing_options_edges_counterexample:
  "\<not> (set (wing_options 1) = {9, 2} \<and> set (wing_options 9) = {8, 1}
      \<and> set (wing_options 5) = {4, 6})"
  by (simp add: wing_options_def)

text \<open>
  C3, amended: the wing options offered for primary type 1 are exactly 2 (neither 0 nor 9),
  for primary type 9 exactly 8 (neither 10 nor 1), and for primary type 5 exactly 4 and 6.
\<close>

theorem wing_options_at_1_9_5:
  "set (wing_options 1) = {2} \<and> 0 \<notin> set (wing_options 1) \<and> 9 \<notin> set (wing_options 1)
   \<and> set (wing_options 9) = {8} \<and> 10 \<notin> set (wing_options 9) \<and> 1 \<notin> set (wing_options 9)
   \<and> set (wing_options 5) = {4, 6}"
  by (simp add: wing_options_def)

text \<open>
  C4: for every primary type p from 1 to 9, the wing candidates are p - 1 and p + 1
  filtered to the range 1 to 9; there is one candidate when p is 1 or 9 and there are two
  otherwise. Saving the form with primary type p stores the wing the widget returned, which
  is one of the candidates whenever it is a wing at all, and after any sequence of
  interactions the stored Enneagram result, if there is one, has a wing among the candidates
  of its primary type.
\<close>

theorem wing_candidates:
  assumes "1 \<le> p" and "p \<le> 9"
  shows "set (wing_options p) = {w. (w = p - 1 \<or> w = p + 1) \<and> 1 \<le> w \<and> w \<le> 9}
     \<and> card (set (wing_options p)) = (if p = 1 \<or> p = 9 then 1 else 2)
     \<and> select_option primary_options (nat (p - 1)) = Some p
     \<and> map_of (personality_data (fst (enneagram_assessment ss
            (inp\<lparr>primary_choice := nat (p - 1), save_enneagram := True\<rparr>)))) ''enneagram''
         = Some [(''primary_type'', PInt p),
                 (''wing'', opt_int (select_option (wing_options p) (wing_choice inp))),
                 (''instinct'', opt_str (select_option instinct_options (instinct_choice inp)))]
     \<and> set_option (select_option (wing_options p) (wing_choice inp)) \<subseteq> set (wing_options p)
     \<and> list_all wing_valid (present (personality_data (session_after inps)) ''enneagram'')"
proof -
  have cand: "set (wing_options p) = {w. (w = p - 1 \<or> w = p + 1) \<and> 1 \<le> w \<and> w \<le> 9}"
    by (auto simp: wing_options_def)
  have card: "card (set (wing_options p)) = (if p = 1 \<or> p = 9 then 1 else 2)"
    using assms by (auto simp: wing_options_def)
  have "nat (p - 1) < 9" using assms by simp
  moreover have "[1..9] ! nat (p - 1) = p"
    using assms nth_upto [of 1 "nat (p - 1)" 9] by simp
  ultimately have sel: "select_option primary_options (nat (p - 1)) = Some p"
    by (simp add: select_option_def primary_options_def)
  have stored: "map_of (personality_data (fst (enneagram_assessment ss
            (inp\<lparr>primary_choice := nat (p - 1), save_enneagram := True\<rparr>)))) ''enneagram''
         = Some [(''primary_type'', PInt p),
                 (''wing'', opt_int (select_option (wing_options p) (wing_choice inp))),
                 (''instinct'', opt_str (select_option instinct_options (instinct_choice inp)))]"
    by (simp add: enneagram_assessment_def sel Let_def map_of_setitem enneagram_record_def)
  have sub: "set_option (select_option (wing_options p) (wing_choice inp)) \<subseteq> set (wing_options p)"
    by (auto dest: select_option_SomeD)
  from cand card sel stored sub session_wing_valid show ?thesis by blast
qed

text \<open>The claim at primary type 9, and after one Enneagram submission.\<close>

theorem wing_candidates_witness:
  "(1::int) \<le> 9 \<and> (9::int) \<le> 9
   \<and> set (wing_options 9) = {8}
   \<and> card (set (wing_options 9)) = 1
   \<and> map_of (personality_data (fst (enneagram_assessment initial_state
          (default_inputs\<lparr>primary_choice := 8, save_enneagram := True\<rparr>)))) ''enneagram''
       = Some [(''primary_type'', PInt 9), (''wing'', PInt 8),
               (''instinct'', PStr ''Self-Preservation (sp)'')]
   \<and> list_all wing_valid (present (personality_data (session_after [enneagram_submission]))
        ''enneagram'')"
proof -
  have "list_all wing_valid (present (personality_data (session_after [enneagram_submission]))
        ''enneagram'')"
    using wing_candidates [of 9 initial_state default_inputs "[enneagram_submission]"] by simp
  moreover have "map_of (personality_data (fst (enneagram_assessment initial_state
          (default_inputs\<lparr>primary_choice := 8, save_enneagram := True\<rparr>)))) ''enneagram''
       = Some [(''primary_type'', PInt 9), (''wing'', PInt 8),
               (''instinct'', PStr ''Self-Preservation (sp)'')]"
    using wing_candidates [of 9 initial_state default_inputs "[enneagram_submission]"]
    by (simp add: wing_options_def select_option_def default_inputs_def instinct_options_def)
  ultimately show ?thesis
    by (simp add: wing_options_def)
qed

text \<open>
  C5: for every Big Five submission with scores s1 to s5, each from 1 to 100, the store's
  entry under \<^verbatim>\<open>big_five\<close> after the save is exactly the dictionary of the five scores
  under openness, conscientiousness, extraversion, agreeableness and neuroticism, in the
  form itself and when the submission comes through the script's routing.
\<close>

theorem big_five_saved:
  assumes "1 \<le> s1 \<and> s1 \<le> 100" and "1 \<le> s2 \<and> s2 \<le> 100" and "1 \<le> s3 \<and> s3 \<le> 100"
    and "1 \<le> s4 \<and> s4 \<le> 100" and "1 \<le> s5 \<and> s5 \<le> 100"
  shows "getitem (personality_data (fst (big_five_assessment ss
            (inp\<lparr>openness_in := s1, conscientiousness_in := s2, extraversion_in := s3,
                 agreeableness_in := s4, neuroticism_in := s5, save_big_five := True\<rparr>))))
           ''big_five''
         = Inr [(''openness'', PInt s1), (''conscientiousness'', PInt s2),
                (''extraversion'', PInt s3), (''agreeableness'', PInt s4),
                (''neuroticism'', PInt s5)]
     \<and> getitem (personality_data (fst (main ss
            (inp\<lparr>page_choice := 1, assessment_choice := 0,
                 openness_in := s1, conscientiousness_in := s2, extraversion_in := s3,
                 agreeableness_in := s4, neuroticism_in := s5, save_big_five := True\<rparr>))))
           ''big_five''
         = Inr [(''openness'', PInt s1), (''conscientiousness'', PInt s2),
                (''extraversion'', PInt s3), (''agreeableness'', PInt s4),
                (''neuroticism'', PInt s5)]"
  by (simp add: big_five_assessment_def getitem_setitem_same big_five_record_def
      main_def assessment_page_def select_option_def pages_def assessment_types_def split_def)

text \<open>The claim at the scores 80, 40, 60, 70, 30 on a new session.\<close>

theorem big_five_saved_witness:
  "(1::int) \<le> 80 \<and> (80::int) \<le> 100 \<and> (1::int) \<le> 40 \<and> (40::int) \<le> 100
   \<and> (1::int) \<le> 60 \<and> (60::int) \<le> 100 \<and> (1::int) \<le> 70 \<and> (70::int) \<le> 100
   \<and> (1::int) \<le> 30 \<and> (30::int) \<le> 100
   \<and> getitem (personality_data (fst (big_five_assessment initial_state
            (default_inputs\<lparr>openness_in := 80, conscientiousness_in := 40, extraversion_in := 60,
                 agreeableness_in := 70, neuroticism_in := 30, save_big_five := True\<rparr>))))
           ''big_five''
         = Inr [(''openness'', PInt 80), (''conscientiousness'', PInt 40),
                (''extraversion'', PInt 60), (''agreeableness'', PInt 70),
                (''neuroticism'', PInt 30)]"
  using big_five_saved [of 80 40 60 70 30 initial_state default_inputs]
  by simp

text \<open>
  C6: after any sequence of interactions the store holds at most one entry per kind;
  a second assignment to a key replaces the first, so that reading the key gives the second
  value and the store is the one a single assignment of the second value gives; and a
  second Big Five submission leaves the store as if only it had been made.
\<close>

theorem store_replaces:
  "length (filter (\<lambda>e. fst e = kind) (personality_data (session_after inps))) \<le> 1
   \<and> getitem (setitem (setitem pd kind a) kind b) kind = Inr b
   \<and> setitem (setitem pd kind a) kind b = setitem pd kind b
   \<and> personality_data (fst (big_five_assessment
         (fst (big_five_assessment ss (inp_a\<lparr>save_big_five := True\<rparr>)))
         (inp_b\<lparr>save_big_five := True\<rparr>)))
       = personality_data (fst (big_five_assessment ss (inp_b\<lparr>save_big_five := True\<rparr>)))
   \<and> getitem (personality_data (fst (big_five_assessment
         (fst (big_five_assessment ss (inp_a\<lparr>save_big_five := True\<rparr>)))
         (inp_b\<lparr>save_big_five := True\<rparr>))))
        ''big_five''
       = Inr [(''openness'', PInt (openness_in inp_b)),
              (''conscientiousness'', PInt (conscientiousness_in inp_b)),
              (''extraversion'', PInt (extraversion_in inp_b)),
              (''agreeableness'', PInt (agreeableness_in inp_b)),
              (''neuroticism'', PInt (neuroticism_in inp_b))]"
proof -
  have "distinct (map fst (personality_data (session_after inps)))"
    using session_after_store_ok [of inps] by (simp add: store_ok_def)
  then have "length (filter (\<lambda>e. fst e = kind) (personality_data (session_after inps))) \<le> 1"
    by (rule filter_key_le_1)
  then show ?thesis
    by (simp add: getitem_setitem_same setitem_twice big_five_assessment_def big_five_record_def)
qed

text \<open>The claim on a session with two Big Five submissions.\<close>

theorem store_replaces_witness:
  "length (filter (\<lambda>e. fst e = ''big_five'')
      (personality_data (session_after [big_five_submission, big_five_submission]))) \<le> 1
   \<and> getitem (personality_data (fst (big_five_assessment
         (fst (big_five_assessment initial_state (default_inputs\<lparr>save_big_five := True\<rparr>)))
         (big_five_submission\<lparr>save_big_five := True\<rparr>))))
        ''big_five''
       = Inr [(''openness'', PInt 80), (''conscientiousness'', PInt 40),
              (''extraversion'', PInt 60), (''agreeableness'', PInt 70),
              (''neuroticism'', PInt 30)]"
proof -
  note r = store_replaces [of "''big_five''" "[big_five_submission, big_five_submission]"
      "[] :: (string \<times> pydict) list" "[]" "[]" initial_state default_inputs big_five_submission]
  note a = r [THEN conjunct1]
  note b = r [THEN conjunct2, THEN conjunct2, THEN conjunct2, THEN conjunct2]
  from a b show ?thesis
    by (simp add: big_five_submission_def default_inputs_def)
qed

text \<open>
  C7: in every state a session can reach, if the store is empty the chat page and the
  analytics page each show their header and one warning and nothing else, raise nothing and
  leave the state alone; if the store is not empty, neither page raises, the chat page
  answers with the templated response exactly when a non-empty question is asked, and the
  analytics page shows, for each kind in the store, the projection of the specification:
  the Big Five bar series, the MBTI type string and the four indicators, and the Enneagram
  text.
\<close>

theorem gated_views:
  "(let ss = session_after inps; pd = personality_data ss in
    if pd = [] then
      chat_page ss inp = (ss, [Header ''Chat with Your Past Self'', Warning chat_warning], None)
      \<and> analytics_page ss = (ss, [Header ''Personality Analytics'', Warning analytics_warning], None)
    else
      fst (chat_page ss inp) = ss
      \<and> snd (snd (chat_page ss inp)) = None
      \<and> infos (fst (snd (chat_page ss inp))) =
          (if user_query_in inp \<noteq> [] \<and> ask inp then [chat_response (user_query_in inp)] else [])
      \<and> fst (analytics_page ss) = ss
      \<and> snd (snd (analytics_page ss)) = None
      \<and> bar_charts (fst (snd (analytics_page ss))) = map spec_big_five_series (present pd ''big_five'')
      \<and> progress_values (fst (snd (analytics_page ss))) =
          concat (map spec_mbti_indicators (present pd ''mbti''))
      \<and> set (map (\<lambda>r. ''Your type: '' @ spec_mbti_type r) (present pd ''mbti''))
          \<subseteq> set (written (fst (snd (analytics_page ss))))
      \<and> set (map spec_enneagram_text (present pd ''enneagram''))
          \<subseteq> set (written (fst (snd (analytics_page ss)))))"
proof (cases "personality_data (session_after inps) = []")
  case True
  then show ?thesis
    by (simp add: Let_def chat_page_empty analytics_page_empty)
next
  case False
  note a = analytics_page_ok [OF session_after_store_ok False]
  have c: "snd (snd (chat_page (session_after inps) inp)) = None"
    using False by (simp add: chat_page_nonempty emit_def)
  from False a c show ?thesis
    by (simp add: Let_def fst_chat_page chat_infos)
qed

text \<open>The claim on a new session and on a session with one Big Five submission.\<close>

theorem gated_views_witness:
  "personality_data (session_after []) = []
   \<and> chat_page (session_after []) question
       = (session_after [], [Header ''Chat with Your Past Self'', Warning chat_warning], None)
   \<and> analytics_page (session_after [])
       = (session_after [], [Header ''Personality Analytics'', Warning analytics_warning], None)
   \<and> personality_data (session_after [big_five_submission]) \<noteq> []
   \<and> infos (fst (snd (chat_page (session_after [big_five_submission]) question)))
       = [chat_response ''What should I do?'']
   \<and> bar_charts (fst (snd (analytics_page (session_after [big_five_submission]))))
       = [[(''Openness'', PInt 80), (''Conscientiousness'', PInt 40), (''Extraversion'', PInt 60),
           (''Agreeableness'', PInt 70), (''Neuroticism'', PInt 30)]]
   \<and> progress_values (fst (snd (analytics_page (session_after [big_five_submission])))) = []"
proof -
  have e: "personality_data (session_after []) = []"
    by (simp add: session_empty initial_state_def)
  have n: "personality_data (session_after [big_five_submission]) \<noteq> []"
    by (simp add: session_big_five)
  from gated_views [of "[]" question] e
  have 1: "chat_page (session_after []) question
       = (session_after [], [Header ''Chat with Your Past Self'', Warning chat_warning], None)
   \<and> analytics_page (session_after [])
       = (session_after [], [Header ''Personality Analytics'', Warning analytics_warning], None)"
    by (simp add: Let_def)
  from gated_views [of "[big_five_submission]" question] n
  have 2: "infos (fst (snd (chat_page (session_after [big_five_submission]) question)))
       = [chat_response ''What should I do?'']
   \<and> bar_charts (fst (snd (analytics_page (session_after [big_five_submission]))))
       = [[(''Openness'', PInt 80), (''Conscientiousness'', PInt 40), (''Extraversion'', PInt 60),
           (''Agreeableness'', PInt 70), (''Neuroticism'', PInt 30)]]
   \<and> progress_values (fst (snd (analytics_page (session_after [big_five_submission])))) = []"
    by (simp add: Let_def session_big_five present_def spec_big_five_series_def field_def
        big_five_record_def question_def default_inputs_def)
  from e n 1 2 show ?thesis by blast
qed

text \<open>
  C8: with a non-empty store and a non-empty question asked, the page shows one response,
  the response contains the question as a contiguous substring, and everything the page shows
  is the same for any two non-empty stores.
\<close>

theorem chat_response_embeds_query:
  assumes "personality_data ss1 \<noteq> []" and "personality_data ss2 \<noteq> []"
    and "user_query_in inp \<noteq> []" and "ask inp"
  shows "infos (fst (snd (chat_page ss1 inp))) = [chat_response (user_query_in inp)]
     \<and> sublist (user_query_in inp) (chat_response (user_query_in inp))
     \<and> snd (chat_page ss1 inp) = snd (chat_page ss2 inp)"
  using assms by (simp add: sublist_chat_response chat_page_nonempty emit_def)

text \<open>The claim for the question "What should I do?" on two sessions with different stores.\<close>

theorem chat_response_embeds_query_witness:
  "personality_data (session_after [big_five_submission]) \<noteq> []
   \<and> personality_data (session_after [enneagram_submission]) \<noteq> []
   \<and> user_query_in question \<noteq> [] \<and> ask question
   \<and> infos (fst (snd (chat_page (session_after [big_five_submission]) question)))
       = [chat_response ''What should I do?'']
   \<and> sublist ''What should I do?'' (chat_response ''What should I do?'')
   \<and> snd (chat_page (session_after [big_five_submission]) question)
       = snd (chat_page (session_after [enneagram_submission]) question)"
proof -
  have h: "personality_data (session_after [big_five_submission]) \<noteq> []"
    "personality_data (session_after [enneagram_submission]) \<noteq> []"
    "user_query_in question \<noteq> []" "ask question"
    by (simp_all add: session_big_five session_enneagram question_def default_inputs_def)
  have q: "user_query_in question = ''What should I do?''"
    by (simp add: question_def default_inputs_def)
  from chat_response_embeds_query [OF h, unfolded q] h show ?thesis
    by blast
qed

text \<open>
  C9: the chat page and the analytics page return the session state they were given, for
  every state, and a run of the script on either page leaves the personality data as it
  was.
\<close>

theorem views_leave_store:
  "fst (chat_page ss inp) = ss \<and> fst (analytics_page ss) = ss
   \<and> personality_data (fst (main ss (inp\<lparr>page_choice := 2\<rparr>))) = personality_data ss
   \<and> personality_data (fst (main ss (inp\<lparr>page_choice := 3\<rparr>))) = personality_data ss"
  by (simp add: fst_chat_page fst_analytics_page main_def select_option_def pages_def split_def)

text \<open>The claim on a session with one Big Five submission.\<close>

theorem views_leave_store_witness:
  "fst (chat_page (session_after [big_five_submission]) question) = session_after [big_five_submission]
   \<and> fst (analytics_page (session_after [big_five_submission])) = session_after [big_five_submission]
   \<and> personality_data (fst (main (session_after [big_five_submission]) (question\<lparr>page_choice := 2\<rparr>)))
       = [(''big_five'', big_five_record 80 40 60 70 30)]
   \<and> personality_data (fst (main (session_after [big_five_submission]) (question\<lparr>page_choice := 3\<rparr>)))
       = [(''big_five'', big_five_record 80 40 60 70 30)]"
  using views_leave_store [of "session_after [big_five_submission]" question]
  by (simp add: session_big_five)

text \<open>
  C10: on the chat page with a non-empty store, a response is shown exactly when the
  question is not empty and the trigger fires; with an empty question the page shows its
  header, its introduction and the text input only, even when the trigger is reported.
\<close>

theorem empty_query_no_response:
  assumes "personality_data ss \<noteq> []"
  shows "infos (fst (snd (chat_page ss inp))) =
           (if user_query_in inp \<noteq> [] \<and> ask inp then [chat_response (user_query_in inp)] else [])
     \<and> snd (chat_page ss (inp\<lparr>user_query_in := [], ask := True\<rparr>)) =
           ([Header ''Chat with Your Past Self'', Markdown chat_intro, TextInput ''Your question:''],
            None)"
  using assms by (simp add: chat_infos chat_page_nonempty emit_def)

text \<open>The claim on a session with one Big Five submission and an empty question.\<close>

theorem empty_query_no_response_witness:
  "personality_data (session_after [big_five_submission]) \<noteq> []
   \<and> infos (fst (snd (chat_page (session_after [big_five_submission])
        (question\<lparr>user_query_in := [], ask := True\<rparr>)))) = []
   \<and> snd (chat_page (session_after [big_five_submission])
        (question\<lparr>user_query_in := [], ask := True\<rparr>)) =
           ([Header ''Chat with Your Past Self'', Markdown chat_intro, TextInput ''Your question:''],
            None)"
proof -
  have h: "personality_data (session_after [big_five_submission]) \<noteq> []"
    by (simp add: session_big_five)
  from empty_query_no_response [OF h, of "question\<lparr>user_query_in := [], ask := True\<rparr>"] h
  show ?thesis by simp
qed

end
